theory Spec2Isabelle
  imports Complex_Main
begin

section \<open>The cost model used by the resource builders\<close>

text \<open>
  The Go structs of package \<open>schema\<close> that \<open>EIP.BuildResource\<close> fills in. A pointer field
  is an \<open>option\<close> (\<open>None\<close> is \<open>nil\<close>), a slice is a list (\<open>[]\<close> is the \<open>nil\<close> slice), and a field
  that a composite literal leaves out has Go's zero value. Field names carry a short prefix
  of their struct (\<open>af\<close>, \<open>pf\<close>, \<open>prf\<close>, \<open>cc\<close>, \<open>res\<close>), because several structs share the names
  \<open>Name\<close> and \<open>Region\<close>.

  A \<open>decimal.Decimal\<close> is an unbounded integer coefficient and a power of ten:
  \<open>Decimal v e\<close> stands for \<open>v * 10 ^ e\<close>; \<open>decimal.NewFromInt v\<close> has exponent 0.
\<close>

datatype decimal = Decimal (coefficient: int) (exponent: int)

definition NewFromInt :: "int \<Rightarrow> decimal" where
  "NewFromInt v = Decimal v 0"

record AttributeFilter =
  af_Key :: string
  af_ValueRegex :: "string option"

record ProductFilter =
  pf_VendorName :: "string option"
  pf_Region :: "string option"
  pf_Service :: "string option"
  pf_ProductFamily :: "string option"
  pf_AttributeFilters :: "AttributeFilter list"

record PriceFilter =
  prf_StartUsageAmount :: "string option"

record CostComponent =
  cc_Name :: string
  cc_Unit :: string
  cc_UnitMultiplier :: decimal
  cc_HourlyQuantity :: "decimal option"
  cc_MonthlyQuantity :: "decimal option"
  cc_ProductFilter :: "ProductFilter option"
  cc_PriceFilter :: "PriceFilter option"

record UsageItem =
  ui_Key :: string

datatype Resource = Resource
  (res_Name: string)
  (res_CostComponents: "CostComponent list")
  (res_SubResources: "Resource list")
  (res_NoPrice: bool)
  (res_IsSkipped: bool)
  (res_UsageSchema: "UsageItem list")

definition strPtr :: "string \<Rightarrow> string option" where
  "strPtr s = Some s"

definition decimalPtr :: "decimal \<Rightarrow> decimal option" where
  "decimalPtr d = Some d"

section \<open>The Elastic IP resource\<close>

record EIP =
  Address :: string
  Region :: string
  CustomerOwnedIPv4Pool :: string
  Instance :: string
  NetworkInterface :: string

definition EIPUsageSchema :: "UsageItem list" where
  "EIPUsageSchema = []"

definition BuildResource :: "EIP \<Rightarrow> Resource" where
  "BuildResource r =
    (if CustomerOwnedIPv4Pool r \<noteq> '''' \<or> Instance r \<noteq> '''' \<or> NetworkInterface r \<noteq> ''''
     then Resource (Address r) [] [] True True EIPUsageSchema
     else Resource (Address r)
       [\<lparr> cc_Name = ''IP address (if unused)'',
          cc_Unit = ''hours'',
          cc_UnitMultiplier = NewFromInt 1,
          cc_HourlyQuantity = decimalPtr (NewFromInt 1),
          cc_MonthlyQuantity = None,
          cc_ProductFilter = Some
            \<lparr> pf_VendorName = strPtr ''aws'',
              pf_Region = strPtr (Region r),
              pf_Service = strPtr ''AmazonEC2'',
              pf_ProductFamily = strPtr ''IP Address'',
              pf_AttributeFilters =
                [\<lparr> af_Key = ''usagetype'',
                   af_ValueRegex = strPtr ''/ElasticIP:IdleAddress/'' \<rparr>] \<rparr>,
          cc_PriceFilter = Some \<lparr> prf_StartUsageAmount = strPtr ''1'' \<rparr> \<rparr>]
       [] False False EIPUsageSchema)"

section \<open>Go error values and \<open>unwrapped\<close>\<close>

text \<open>
  A Go \<open>error\<close> is an interface value: \<open>nil\<close> or a reference to an error object. Error
  objects are the values of a type \<open>'e\<close>, and an \<open>error\<close> is an \<open>'e option\<close> with \<open>None\<close> for
  \<open>nil\<close>. What \<open>Unwrap()\<close> returns for an object is given by a function \<open>U\<close>
  (\<open>U a = None\<close> when the object has no \<open>Unwrap\<close> method or the method returns \<open>nil\<close>), so a
  chain of causes may be finite or run in a cycle. \<open>errors.Unwrap\<close> and \<open>errors.Is\<close> are those
  of the Go 1.17 standard library, to which \<open>github.com/pkg/errors\<close> forwards.

  The loop of \<open>unwrapped\<close> has no bound: the function is partial, and \<open>None\<close> as its result
  says that the loop never ends.
\<close>

definition errors_Unwrap :: "('e \<Rightarrow> 'e option) \<Rightarrow> 'e option \<Rightarrow> 'e option" where
  "errors_Unwrap U err = (case err of None \<Rightarrow> None | Some a \<Rightarrow> U a)"

partial_function (option) unwrapped ::
  "('e \<Rightarrow> 'e option) \<Rightarrow> 'e option \<Rightarrow> 'e option option" where
  "unwrapped U e =
    (if errors_Unwrap U e \<noteq> None then unwrapped U (errors_Unwrap U e) else Some e)"

text \<open>
  \<open>errors.Is\<close>: \<open>M a t\<close> is the result of the \<open>Is(target)\<close> method of the object \<open>a\<close>
  (\<open>False\<close> when it has none). Error references are comparable with \<open>==\<close>.
\<close>

partial_function (option) errors_Is_loop ::
  "('e \<Rightarrow> 'e option) \<Rightarrow> ('e \<Rightarrow> 'e \<Rightarrow> bool) \<Rightarrow> 'e \<Rightarrow> 'e \<Rightarrow> bool option" where
  "errors_Is_loop U M err target =
    (if err = target then Some True
     else if M err target then Some True
     else (case U err of None \<Rightarrow> Some False | Some c \<Rightarrow> errors_Is_loop U M c target))"

definition errors_Is ::
  "('e \<Rightarrow> 'e option) \<Rightarrow> ('e \<Rightarrow> 'e \<Rightarrow> bool) \<Rightarrow> 'e option \<Rightarrow> 'e option \<Rightarrow> bool option" where
  "errors_Is U M err target =
    (case target of
       None \<Rightarrow> Some (err = target)
     | Some t \<Rightarrow> (case err of None \<Rightarrow> Some False | Some a \<Rightarrow> errors_Is_loop U M a t))"

text \<open>
  The chain of causes of an error object: \<open>nth_cause U n a\<close> is the object reached from \<open>a\<close> by
  \<open>n\<close> calls of \<open>Unwrap\<close>, if the chain is that long. The chain is finite (and then acyclic)
  when some number of steps leaves it.
\<close>

fun nth_cause :: "('e \<Rightarrow> 'e option) \<Rightarrow> nat \<Rightarrow> 'e \<Rightarrow> 'e option" where
  "nth_cause U 0 a = Some a"
| "nth_cause U (Suc n) a = (case U a of None \<Rightarrow> None | Some b \<Rightarrow> nth_cause U n b)"

definition finite_chain :: "('e \<Rightarrow> 'e option) \<Rightarrow> 'e \<Rightarrow> bool" where
  "finite_chain U a = (\<exists>n. nth_cause U n a = None)"

section \<open>Configuration state and command-line flags\<close>

text \<open>
  \<open>*config.Config\<close> is shared and mutated in place, and its \<open>Projects.Terraform\<close> and
  \<open>Outputs\<close> slices hold pointers. The state has the fields of the configuration that
  \<open>run.go\<close> reads or writes, a store for the objects the pointers refer to
  (\<open>tfProjects\<close>, \<open>outputs\<close>) with an allocation counter \<open>used\<close>, and \<open>world\<close> for everything
  else that the called packages can read or change (files, environment, network, the rest
  of the configuration).
\<close>

type_synonym addr = nat

record TerraformProject =
  Path :: string
  UseState :: bool
  PlanFlags :: string
  UsageFile :: string

record Output =
  Format :: string
  ShowSkipped :: bool
  out_Path :: string

record 'w state =
  world :: 'w
  Terraform :: "addr list"
  Outputs :: "addr list"
  NoColor :: bool
  HasUsageFile :: bool
  tfProjects :: "addr \<Rightarrow> TerraformProject"
  outputs :: "addr \<Rightarrow> Output"
  used :: addr

definition new_TerraformProject :: "'w state \<Rightarrow> addr \<times> 'w state" where
  "new_TerraformProject s =
    (used s, s\<lparr> used := Suc (used s),
        tfProjects := (tfProjects s)(used s :=
          \<lparr> Path = '''', UseState = False, PlanFlags = '''', UsageFile = '''' \<rparr>) \<rparr>)"

definition new_Output :: "'w state \<Rightarrow> addr \<times> 'w state" where
  "new_Output s =
    (used s, s\<lparr> used := Suc (used s),
        outputs := (outputs s)(used s :=
          \<lparr> Format = '''', ShowSkipped = False, out_Path = '''' \<rparr>) \<rparr>)"

record flag_decl =
  flag_name :: string
  flag_default :: string
  flag_usage :: string

definition addRunInputFlags :: "flag_decl list" where
  "addRunInputFlags =
    [\<lparr> flag_name = ''path'', flag_default = '''',
       flag_usage = ''Path to the code directory or file'' \<rparr>,
     \<lparr> flag_name = ''config-file'', flag_default = '''',
       flag_usage = ''Path to the Infracost config file. Cannot be used with other flags'' \<rparr>,
     \<lparr> flag_name = ''usage-file'', flag_default = '''',
       flag_usage = ''Path to Infracost usage file that specifies values for usage-based resources'' \<rparr>,
     \<lparr> flag_name = ''terraform-plan-flags'', flag_default = '''',
       flag_usage = ''Flags to pass to the 'terraform plan' command'' \<rparr>]"

definition usage_of :: "flag_decl list \<Rightarrow> string \<Rightarrow> string option" where
  "usage_of ds n = map_option flag_usage (find (\<lambda>d. flag_name d = n) ds)"

record flags =
  Changed :: "string \<Rightarrow> bool"
  GetString :: "string \<Rightarrow> string"
  GetBool :: "string \<Rightarrow> bool"

text \<open>
  \<open>loadRunFlags\<close> reads the flags of the command: \<open>Changed\<close> says whether the user set a
  flag, \<open>GetString\<close> and \<open>GetBool\<close> give its value (the zero value when the lookup fails, as
  the code drops the error). \<open>cfg.LoadFromFile\<close> and \<open>cfg.LoadFromEnv\<close> are parameters.
  \<open>ui.PrintUsageErrorAndExit\<close> prints the message with the usage of the command and ends the
  process: the call of \<open>loadRunFlags\<close> then does not return, which is the outcome \<open>Exited\<close>.
\<close>

datatype 'e outcome = Exited string | Returned "'e option"

definition loadRunFlags ::
  "(string \<Rightarrow> 'w state \<Rightarrow> 'e option \<times> 'w state) \<Rightarrow> ('w state \<Rightarrow> 'e option \<times> 'w state) \<Rightarrow>
   flags \<Rightarrow> 'w state \<Rightarrow> 'e outcome \<times> 'w state" where
  "loadRunFlags LoadFromFile LoadFromEnv cmd s =
    (let hasConfigFile = Changed cmd ''config-file'';
         hasProjectFlags = (Changed cmd ''path'' \<or>
           Changed cmd ''terraform-plan-flags'' \<or>
           Changed cmd ''usage-file'');
         hasOutputFlags = (Changed cmd ''format'' \<or>
           Changed cmd ''show-skipped'')
     in
     if hasConfigFile \<and> hasProjectFlags
     then (Exited ''--config-file flag cannot be used with other project and output flags'', s)
     else
       case (if hasConfigFile then LoadFromFile (GetString cmd ''config-file'') s
             else (None, s)) of
         (Some err, s1) \<Rightarrow> (Returned (Some err), s1)
       | (None, s1) \<Rightarrow>
          (let (projectCfg, s2) = new_TerraformProject s1;
               s3 = (if hasProjectFlags then s2\<lparr> Terraform := [projectCfg] \<rparr> else s2);
               (outputCfg, s4) = new_Output s3;
               s5 = (if hasOutputFlags then s4\<lparr> Outputs := [outputCfg] \<rparr> else s4) in
           case (if hasProjectFlags \<or> hasOutputFlags then LoadFromEnv s5 else (None, s5)) of
             (Some err, s6) \<Rightarrow> (Returned (Some err), s6)
           | (None, s6) \<Rightarrow>
              let s7 = (if hasProjectFlags
                    then s6\<lparr> tfProjects := (tfProjects s6)(projectCfg :=
                      (tfProjects s6 projectCfg)
                        \<lparr> Path := GetString cmd ''path'',
                          UseState := GetBool cmd ''terraform-use-state'',
                          PlanFlags := GetString cmd ''terraform-plan-flags'',
                          UsageFile := GetString cmd ''usage-file'' \<rparr>) \<rparr>
                    else s6);
                  s8 = (if hasOutputFlags
                    then s7\<lparr> outputs := (outputs s7)(outputCfg :=
                      (outputs s7 outputCfg)
                        \<lparr> Format := GetString cmd ''format'',
                          ShowSkipped := GetBool cmd ''show-skipped'' \<rparr>) \<rparr>
                    else s7)
              in (Returned None, s8)))"


section \<open>\<open>runMain\<close>\<close>

text \<open>
  \<open>runMain\<close> calls into packages whose code is not part of this development: \<open>providers\<close>,
  \<open>usage\<close>, \<open>prices\<close>, \<open>schema\<close>, \<open>output\<close>, \<open>ui\<close> and \<open>config\<close>. Their functions are the
  fields of a record of parameters, so every theorem about \<open>runMain\<close> holds whatever they
  do. A function that may read or change the configuration or the outside world takes the
  state and returns the new one; a project is a value of type \<open>'p\<close>, and a function that
  mutates the project it is given returns the new value. \<open>'v\<close> is a detected provider, \<open>'u\<close> the
  usage data of a usage file, \<open>'r\<close> the root of the output.
\<close>

record Options =
  opt_ShowSkipped :: bool
  opt_NoColor :: bool

record ('w, 'e, 'u, 'v, 'p, 'r) externals =
  SetTerraformEnvironment :: "addr \<Rightarrow> 'w state \<Rightarrow> 'w state"
  Detect :: "addr \<Rightarrow> 'w state \<Rightarrow> 'v option \<times> 'w state"
  provider_Type :: "'v \<Rightarrow> string"
  IsLogging :: "'w state \<Rightarrow> bool"
  usage_LoadFromFile :: "string \<Rightarrow> 'w state \<Rightarrow> ('e + 'u) \<times> 'w state"
  usage_len :: "'u \<Rightarrow> nat"
  LoadResources :: "'v \<Rightarrow> 'u \<Rightarrow> 'w state \<Rightarrow> ('e + 'p) \<times> 'w state"
  PopulatePrices :: "'p \<Rightarrow> 'w state \<Rightarrow> ('e option \<times> 'p) \<times> 'w state"
  CalculateCosts :: "'p \<Rightarrow> 'p"
  CalculateDiff :: "'p \<Rightarrow> 'p"
  Unwrap :: "'e \<Rightarrow> 'e option"
  Is_method :: "'e \<Rightarrow> 'e \<Rightarrow> bool"
  Error :: "'e \<Rightarrow> string"
  ErrInvalidAPIKey :: 'e
  is_PricingAPIError :: "'e \<Rightarrow> bool"
  CredentialsFilePath :: string
  PrimaryString :: "string \<Rightarrow> string"
  ToOutputFormat :: "'p list \<Rightarrow> 'r"
  SetOutputEnvironment :: "addr \<Rightarrow> 'w state \<Rightarrow> 'w state"
  ToLower :: "string \<Rightarrow> string"
  ToJSON :: "'r \<Rightarrow> Options \<Rightarrow> string \<times> 'e option"
  ToHTML :: "'r \<Rightarrow> Options \<Rightarrow> string \<times> 'e option"
  ToDiff :: "'r \<Rightarrow> Options \<Rightarrow> string \<times> 'e option"
  ToTableDeprecated :: "'r \<Rightarrow> Options \<Rightarrow> string \<times> 'e option"
  ToTable :: "'r \<Rightarrow> Options \<Rightarrow> string \<times> 'e option"
  WriteFile :: "string \<Rightarrow> string \<Rightarrow> 'w state \<Rightarrow> 'e option \<times> 'w state"

text \<open>
  The error that \<open>runMain\<close> returns is one it received (\<open>Passed\<close>), a new one made by
  \<open>errors.New\<close>, or a received one wrapped by \<open>errors.Wrap\<close>. A call of \<open>runMain\<close> returns
  (\<open>Return None\<close> is the \<open>nil\<close> error), or never returns because the loop of \<open>unwrapped\<close> or
  of \<open>errors.Is\<close> does not end (\<open>Hang\<close>), or panics on calling \<open>Error()\<close> on \<open>nil\<close> (\<open>Panic\<close>).
\<close>

datatype 'e go_error =
    Passed 'e
  | errors_New string
  | errors_Wrap 'e string

datatype 'e result = Return "'e go_error option" | Hang | Panic

text \<open>
  The calls that \<open>runMain\<close> makes and the lines it prints, in the order in which they happen.
  The number is the position of the project in \<open>cfg.Projects.Terraform\<close> (of the output in
  \<open>cfg.Outputs\<close>); the flag says that the call returned no error (for \<open>providers.Detect\<close>, a
  provider), and the event of \<open>prices.PopulatePrices\<close> holds the error it returned.
\<close>

datatype 'e event =
    EvDetect nat bool
  | EvLogInfo string
  | EvStderr string
  | EvLoadFromFile nat bool
  | EvLoadResources nat bool
  | EvNewSpinner
  | EvPopulatePrices nat "'e option"
  | EvSpinnerFail
  | EvCalculateCosts nat
  | EvCalculateDiff nat
  | EvSpinnerSuccess
  | EvToOutputFormat
  | EvRender nat bool
  | EvWriteFile string string bool
  | EvPrintf string

definition newline :: string where
  "newline = [CHR 0x0A]"

text \<open>The first loop: detect the provider, load the usage file, load the resources.\<close>

fun loadProjects ::
  "('w, 'e, 'u, 'v, 'p, 'r) externals \<Rightarrow> nat \<Rightarrow> addr list \<Rightarrow> 'w state \<Rightarrow>
   ('e go_error + 'p list) \<times> 'w state \<times> 'e event list" where
  "loadProjects X i [] s = (Inr [], s, [])"
| "loadProjects X i (projectCfg # rest) s =
    (let s1 = SetTerraformEnvironment X projectCfg s in
     case Detect X projectCfg s1 of
       (None, s2) \<Rightarrow> (Inl (errors_New ''Could not detect path type''), s2, [EvDetect i False])
     | (Some provider, s2) \<Rightarrow>
        (let m = ''Detected '' @ provider_Type X provider @ '' at '' @ Path (tfProjects s2 projectCfg);
             shown = (if IsLogging X s2 then EvLogInfo m else EvStderr (m @ newline)) in
         case usage_LoadFromFile X (UsageFile (tfProjects s2 projectCfg)) s2 of
           (Inl err, s3) \<Rightarrow>
             (Inl (Passed err), s3, [EvDetect i True, shown, EvLoadFromFile i False])
         | (Inr u, s3) \<Rightarrow>
            (let s4 = (if usage_len X u > 0 then s3\<lparr> HasUsageFile := True \<rparr> else s3) in
             case LoadResources X provider u s4 of
               (Inl err, s5) \<Rightarrow>
                 (Inl (Passed err), s5,
                  [EvDetect i True, shown, EvLoadFromFile i True, EvLoadResources i False])
             | (Inr project, s5) \<Rightarrow>
                (case loadProjects X (Suc i) rest s5 of
                   (r, s6, evs) \<Rightarrow>
                     (map_sum id ((#) project) r, s6,
                      [EvDetect i True, shown, EvLoadFromFile i True, EvLoadResources i True]
                        @ evs)))))"

text \<open>What \<open>runMain\<close> returns when \<open>prices.PopulatePrices\<close> has returned the error \<open>err\<close>.\<close>

definition invalidAPIKeyMessage :: "('w, 'e, 'u, 'v, 'p, 'r) externals \<Rightarrow> 'e \<Rightarrow> string" where
  "invalidAPIKeyMessage X e =
    Error X e @ newline @
    ''Please check your'' @ '' '' @ PrimaryString X (CredentialsFilePath X) @ '' '' @
    ''file or'' @ '' '' @ PrimaryString X ''INFRACOST_API_KEY'' @ '' '' @
    ''environment variable.'' @ newline @
    ''If you continue having issues please email hello@infracost.io''"

definition priceFailure :: "('w, 'e, 'u, 'v, 'p, 'r) externals \<Rightarrow> 'e \<Rightarrow> 'e result" where
  "priceFailure X err =
    (case unwrapped (Unwrap X) (Some err) of
       None \<Rightarrow> Hang
     | Some e \<Rightarrow>
        (case errors_Is (Unwrap X) (Is_method X) e (Some (ErrInvalidAPIKey X)) of
           None \<Rightarrow> Hang
         | Some True \<Rightarrow>
            (case e of
               None \<Rightarrow> Panic
             | Some a \<Rightarrow> Return (Some (errors_New (invalidAPIKeyMessage X a))))
         | Some False \<Rightarrow>
            if is_PricingAPIError X err
            then Return (Some (errors_New
              (Error X err @ newline @ ''We have been notified of this issue.'')))
            else Return (Some (Passed err))))"

text \<open>The second loop: populate the prices, calculate the costs and the diff.\<close>

fun priceProjects ::
  "('w, 'e, 'u, 'v, 'p, 'r) externals \<Rightarrow> nat \<Rightarrow> 'p list \<Rightarrow> 'w state \<Rightarrow>
   ('e result + 'p list) \<times> 'w state \<times> 'e event list" where
  "priceProjects X i [] s = (Inr [], s, [])"
| "priceProjects X i (project # rest) s =
    (case PopulatePrices X project s of
       ((Some err, project1), s1) \<Rightarrow>
         (Inl (priceFailure X err), s1,
          [EvPopulatePrices i (Some err), EvSpinnerFail, EvStderr ('''' @ newline)])
     | ((None, project1), s1) \<Rightarrow>
        (let project2 = CalculateCosts X project1;
             project3 = CalculateDiff X project2 in
         case priceProjects X (Suc i) rest s1 of
           (r, s2, evs) \<Rightarrow>
             (map_sum id ((#) project3) r, s2,
              [EvPopulatePrices i None, EvCalculateCosts i, EvCalculateDiff i] @ evs)))"

text \<open>The third loop: render the output in each configured format, write or print it.\<close>

definition render ::
  "('w, 'e, 'u, 'v, 'p, 'r) externals \<Rightarrow> string \<Rightarrow> 'r \<Rightarrow> Options \<Rightarrow> string \<times> 'e option" where
  "render X format r opts =
    (let f = ToLower X format in
     if f = ''json'' then (case ToJSON X r opts of (b, err) \<Rightarrow> (b, err))
     else if f = ''html'' then (case ToHTML X r opts of (b, err) \<Rightarrow> (b, err))
     else if f = ''diff'' then (case ToDiff X r opts of (b, err) \<Rightarrow> (newline @ b, err))
     else if f = ''table_deprecated''
       then (case ToTableDeprecated X r opts of (b, err) \<Rightarrow> (newline @ b, err))
     else (case ToTable X r opts of (b, err) \<Rightarrow> (newline @ b, err)))"

fun writeOutputs ::
  "('w, 'e, 'u, 'v, 'p, 'r) externals \<Rightarrow> 'r \<Rightarrow> nat \<Rightarrow> addr list \<Rightarrow> 'w state \<Rightarrow>
   'e go_error option \<times> 'w state \<times> 'e event list" where
  "writeOutputs X r i [] s = (None, s, [])"
| "writeOutputs X r i (outputCfg # rest) s =
    (let s1 = SetOutputEnvironment X outputCfg s;
         opts = \<lparr> opt_ShowSkipped = ShowSkipped (outputs s1 outputCfg),
                  opt_NoColor = NoColor s1 \<rparr> in
     case render X (Format (outputs s1 outputCfg)) r opts of
       (out, Some err) \<Rightarrow>
         (Some (errors_Wrap err ''Error generating output''), s1, [EvRender i False])
     | (out, None) \<Rightarrow>
        if out_Path (outputs s1 outputCfg) \<noteq> ''''
        then
          (case WriteFile X (out_Path (outputs s1 outputCfg)) out s1 of
             (Some err, s2) \<Rightarrow>
               (Some (errors_Wrap err ''Error saving output''), s2,
                [EvRender i True, EvWriteFile (out_Path (outputs s1 outputCfg)) out False])
           | (None, s2) \<Rightarrow>
              (case writeOutputs X r (Suc i) rest s2 of
                 (res, s3, evs) \<Rightarrow>
                   (res, s3,
                    [EvRender i True, EvWriteFile (out_Path (outputs s1 outputCfg)) out True]
                      @ evs)))
        else
          (case writeOutputs X r (Suc i) rest s1 of
             (res, s3, evs) \<Rightarrow>
               (res, s3, [EvRender i True, EvPrintf (out @ newline)] @ evs)))"

definition runMain ::
  "('w, 'e, 'u, 'v, 'p, 'r) externals \<Rightarrow> 'w state \<Rightarrow> 'e result \<times> 'w state \<times> 'e event list" where
  "runMain X cfg =
    (case loadProjects X 0 (Terraform cfg) cfg of
       (Inl err, s1, evs1) \<Rightarrow> (Return (Some err), s1, evs1)
     | (Inr projects, s1, evs1) \<Rightarrow>
        (case priceProjects X 0 projects s1 of
           (Inl res, s2, evs2) \<Rightarrow> (res, s2, evs1 @ [EvNewSpinner] @ evs2)
         | (Inr projects2, s2, evs2) \<Rightarrow>
            (let r = ToOutputFormat X projects2 in
             case writeOutputs X r 0 (Outputs s2) s2 of
               (res, s3, evs3) \<Rightarrow>
                 (Return res, s3,
                  evs1 @ [EvNewSpinner] @ evs2 @ [EvSpinnerSuccess, EvToOutputFormat] @ evs3))))"

text \<open>
  The stages of the pipeline among the events, the events of a stage that returned an
  error, and the events of the output.
\<close>

fun stage :: "'e event \<Rightarrow> bool" where
  "stage (EvLoadFromFile i ok) = True"
| "stage (EvLoadResources i ok) = True"
| "stage (EvPopulatePrices i err) = True"
| "stage (EvCalculateCosts i) = True"
| "stage (EvCalculateDiff i) = True"
| "stage EvToOutputFormat = True"
| "stage _ = False"

fun failed :: "'e event \<Rightarrow> bool" where
  "failed (EvDetect i ok) = (\<not> ok)"
| "failed (EvLoadFromFile i ok) = (\<not> ok)"
| "failed (EvLoadResources i ok) = (\<not> ok)"
| "failed (EvPopulatePrices i err) = (err \<noteq> None)"
| "failed _ = False"

fun output_event :: "'e event \<Rightarrow> bool" where
  "output_event EvToOutputFormat = True"
| "output_event (EvRender i ok) = True"
| "output_event (EvWriteFile path out ok) = True"
| "output_event (EvPrintf out) = True"
| "output_event _ = False"

definition result :: "('w, 'e, 'u, 'v, 'p, 'r) externals \<Rightarrow> 'w state \<Rightarrow> 'e result" where
  "result X cfg = fst (runMain X cfg)"

definition events :: "('w, 'e, 'u, 'v, 'p, 'r) externals \<Rightarrow> 'w state \<Rightarrow> 'e event list" where
  "events X cfg = snd (snd (runMain X cfg))"

section \<open>The price resolver and the cost calculator of the specification\<close>

text \<open>
  The packages \<open>prices\<close> and \<open>schema\<close> hold the code of the price resolver
  (\<open>prices.PopulatePrices\<close>) and of the cost calculator (\<open>schema.CalculateCosts\<close>); they are
  not among the source files of this development. The definitions of this section follow
  the specification (its sections 3, 4.1, 4.2 and 7) instead.
\<close>

text \<open>
  Modelled from the spec: the exact product of two decimals ("all arithmetic uses
  arbitrary/decimal precision"); the decimal library is absent from the sources. The coefficients are
  multiplied and the exponents added, so nothing is rounded.
\<close>

definition Mul :: "decimal \<Rightarrow> decimal \<Rightarrow> decimal" where
  "Mul a b = Decimal (coefficient a * coefficient b) (exponent a + exponent b)"

text \<open>
  Modelled from the spec: the number a decimal stands for, a rational; decimal equality
  is equality of these numbers.
\<close>

definition dec_value :: "decimal \<Rightarrow> rat" where
  "dec_value d = of_int (coefficient d) * power_int 10 (exponent d)"

text \<open>
  Modelled from the spec: the fixed constant \<open>HOURS_PER_MONTH\<close>, 730; the constant of the
  cost calculator is absent from the sources.
\<close>

definition HOURS_PER_MONTH :: decimal where
  "HOURS_PER_MONTH = NewFromInt 730"

text \<open>
  Modelled from the spec: the reason of an unresolved price, no catalog row (\<open>NoMatch\<close>) or a
  catalog error or timeout that outlasted the retries; the error kinds of the resolver are
  absent from the sources.
\<close>

datatype unresolved_reason = NoMatch | CatalogUnavailable

text \<open>
  Modelled from the spec: the resolved state of a cost component, a price or an
  "unresolved" marker with its reason; \<open>Pending\<close> is a component that no resolution has
  touched. The field of \<open>schema.CostComponent\<close> is absent from the sources.
\<close>

datatype price_state = Pending | Resolved decimal | Unresolved unresolved_reason

text \<open>
  Modelled from the spec: the computed state of a cost component, a decimal or one of the
  defined states "no usage data" and "unresolved"; the cost fields of
  \<open>schema.CostComponent\<close> are absent from the sources.
\<close>

datatype cost = NotCalculated | Cost decimal | NoUsageData | UnresolvedPrice

text \<open>
  Modelled from the spec: a cost component with its resolved and its computed state, which
  the declaration of \<open>schema.CostComponent\<close> (absent from the sources) adds to the fields that the
  resource builders fill in.
\<close>

record PricedComponent = CostComponent +
  Price :: price_state
  HourlyCost :: cost
  MonthlyCost :: cost

text \<open>
  Modelled from the spec: the one failure of the cost calculator, a component with both an
  hourly and a monthly quantity; the calculator is absent from the sources.
\<close>

datatype calc_error = InternalInvariantViolation

text \<open>
  Modelled from the spec: the rules of the cost calculator (\<open>schema.CalculateCosts\<close>, absent
  from the sources) for one cost component. With both quantities set it fails; with neither set
  both costs are "no usage data"; with an unresolved price both are "unresolved"; with the
  hourly quantity \<open>HourlyCost = Price * UnitMultiplier * HourlyQuantity\<close> and
  \<open>MonthlyCost = HourlyCost * HOURS_PER_MONTH\<close>; with the monthly quantity
  \<open>MonthlyCost = Price * UnitMultiplier * MonthlyQuantity\<close> and
  \<open>HourlyCost = MonthlyCost / HOURS_PER_MONTH\<close>. The specification does not say how a
  quotient with no finite decimal expansion is rounded: the division is the parameter \<open>Div\<close>.
\<close>

definition CalculateComponent ::
  "(decimal \<Rightarrow> decimal \<Rightarrow> decimal) \<Rightarrow> PricedComponent \<Rightarrow> calc_error + PricedComponent" where
  "CalculateComponent Div c =
    (case (cc_HourlyQuantity c, cc_MonthlyQuantity c) of
       (Some h, Some m) \<Rightarrow> Inl InternalInvariantViolation
     | (None, None) \<Rightarrow> Inr (c\<lparr> HourlyCost := NoUsageData, MonthlyCost := NoUsageData \<rparr>)
     | (Some q, None) \<Rightarrow>
        (case Price c of
           Resolved p \<Rightarrow>
             (let hourly = Mul (Mul p (cc_UnitMultiplier c)) q in
              Inr (c\<lparr> HourlyCost := Cost hourly,
                       MonthlyCost := Cost (Mul hourly HOURS_PER_MONTH) \<rparr>))
         | _ \<Rightarrow> Inr (c\<lparr> HourlyCost := UnresolvedPrice, MonthlyCost := UnresolvedPrice \<rparr>))
     | (None, Some q) \<Rightarrow>
        (case Price c of
           Resolved p \<Rightarrow>
             (let monthly = Mul (Mul p (cc_UnitMultiplier c)) q in
              Inr (c\<lparr> MonthlyCost := Cost monthly,
                       HourlyCost := Cost (Div monthly HOURS_PER_MONTH) \<rparr>))
         | _ \<Rightarrow> Inr (c\<lparr> HourlyCost := UnresolvedPrice, MonthlyCost := UnresolvedPrice \<rparr>)))"

text \<open>
  Modelled from the spec: the Filter Key of a cost component, its product filter and price
  filter compared structurally; the key of the resolver is absent from the sources.
\<close>

type_synonym filter_key = "ProductFilter option \<times> PriceFilter option"








text \<open>
  Modelled from the spec: how a query of the catalog ended, as the log of the resolver (absent
  from the sources) records it: answered, failed with a retryable error, or rejected for an
  invalid credential.
\<close>

datatype query_outcome = Answered | Retryable | Rejected

text \<open>
  Modelled from the spec: the log of a resolution call of the resolver (absent from the sources),
  every query sent with its batch and how it ended.
\<close>

type_synonym query_log = "(filter_key list \<times> query_outcome) list"












text \<open>
  The queries of one batch: all but the last ended with a retryable error.
\<close>

fun retry_shape :: "query_log \<Rightarrow> bool" where
  "retry_shape [] = True"
| "retry_shape [e] = True"
| "retry_shape (e # es) = (snd e = Retryable \<and> retry_shape es)"




section \<open>The order of events\<close>

text \<open>
  What must have happened before an event, in a run over \<open>n\<close> projects with the history \<open>h\<close>
  of earlier events: a stage follows the stage before it for the same project and no call
  that failed, and the output is converted after all stages of all projects. A trace is
  \<open>ordered\<close> when each of its events meets this condition.
\<close>

definition nofail :: "'e event list \<Rightarrow> bool" where
  "nofail h = (\<forall>f \<in> set h. \<not> failed f)"

fun pre :: "nat \<Rightarrow> 'e event list \<Rightarrow> 'e event \<Rightarrow> bool" where
  "pre n h (EvDetect i ok) = nofail h"
| "pre n h (EvLoadFromFile i ok) = (nofail h \<and> EvDetect i True \<in> set h)"
| "pre n h (EvLoadResources i ok) = (nofail h \<and> EvLoadFromFile i True \<in> set h)"
| "pre n h (EvPopulatePrices i err) = (nofail h \<and> EvLoadResources i True \<in> set h)"
| "pre n h (EvCalculateCosts i) = (nofail h \<and> EvPopulatePrices i None \<in> set h)"
| "pre n h (EvCalculateDiff i) = (nofail h \<and> EvCalculateCosts i \<in> set h)"
| "pre n h EvToOutputFormat =
    (nofail h \<and> (\<forall>i < n. EvLoadFromFile i True \<in> set h \<and> EvLoadResources i True \<in> set h \<and>
       EvPopulatePrices i None \<in> set h \<and> EvCalculateCosts i \<in> set h \<and>
       EvCalculateDiff i \<in> set h))"
| "pre n h (EvRender i ok) = (EvToOutputFormat \<in> set h)"
| "pre n h (EvWriteFile p out ok) = (EvToOutputFormat \<in> set h)"
| "pre n h (EvPrintf out) = (EvToOutputFormat \<in> set h)"
| "pre n h _ = True"

fun ordered :: "nat \<Rightarrow> 'e event list \<Rightarrow> 'e event list \<Rightarrow> bool" where
  "ordered n h [] = True"
| "ordered n h (e # es) = (pre n h e \<and> ordered n (h @ [e]) es)"

fun load_event :: "'e event \<Rightarrow> bool" where
  "load_event (EvDetect i ok) = True"
| "load_event (EvLogInfo m) = True"
| "load_event (EvStderr m) = True"
| "load_event (EvLoadFromFile i ok) = True"
| "load_event (EvLoadResources i ok) = True"
| "load_event _ = False"

fun render_event :: "'e event \<Rightarrow> bool" where
  "render_event (EvRender i ok) = True"
| "render_event (EvWriteFile p out ok) = True"
| "render_event (EvPrintf out) = True"
| "render_event _ = False"

text \<open>The events of the second loop for \<open>k\<close> projects from position \<open>i\<close>, all priced.\<close>

definition priced :: "nat \<Rightarrow> nat \<Rightarrow> 'e event list" where
  "priced i k =
    concat (map (\<lambda>j. [EvPopulatePrices j None, EvCalculateCosts j, EvCalculateDiff j])
      [i ..< i + k])"

section \<open>Concrete inputs\<close>

text \<open>Flags and a configuration on which \<open>loadRunFlags\<close> is run.\<close>

definition noop_load :: "unit state \<Rightarrow> nat option \<times> unit state" where
  "noop_load s = (None, s)"

definition empty_state :: "unit state" where
  "empty_state = \<lparr> world = (), Terraform = [], Outputs = [], NoColor = False,
     HasUsageFile = False,
     tfProjects = (\<lambda>_. \<lparr> Path = '''', UseState = False, PlanFlags = '''', UsageFile = '''' \<rparr>),
     outputs = (\<lambda>_. \<lparr> Format = '''', ShowSkipped = False, out_Path = '''' \<rparr>),
     used = 0 \<rparr>"

definition config_and_format :: flags where
  "config_and_format =
    \<lparr> Changed = (\<lambda>n. n = ''config-file'' \<or> n = ''format'' \<or> n = ''show-skipped''),
      GetString = (\<lambda>n. if n = ''config-file'' then ''infracost.yml''
                        else if n = ''format'' then ''json'' else ''''),
      GetBool = (\<lambda>n. n = ''show-skipped'') \<rparr>"

text \<open>
  A chain of three error objects: object 0 wraps object 1, which wraps object 2, which
  wraps nothing.
\<close>

definition chain3 :: "nat \<Rightarrow> nat option" where
  "chain3 a = (if a = 0 then Some 1 else if a = 1 then Some 2 else None)"

text \<open>
  A world for \<open>runMain\<close>. Error object 0 is \<open>prices.ErrInvalidAPIKey\<close>, object 1 wraps it,
  object 2 is a \<open>*prices.PricingAPIError\<close>. A provider is the path it was detected at, a
  project is its path and the list of what has been done to it. \<open>fails\<close> gives the error
  that \<open>prices.PopulatePrices\<close> returns for a project.
\<close>

definition demo ::
  "(string \<Rightarrow> nat option) \<Rightarrow>
   (unit, nat, nat, string, string \<times> string list, string list) externals" where
  "demo fails =
    \<lparr> SetTerraformEnvironment = (\<lambda>projectCfg s. s),
      Detect = (\<lambda>projectCfg s.
        (if Path (tfProjects s projectCfg) = '''' then None
         else Some (Path (tfProjects s projectCfg)), s)),
      provider_Type = (\<lambda>v. ''terraform_dir''),
      IsLogging = (\<lambda>s. False),
      usage_LoadFromFile = (\<lambda>path s. (Inr (if path = '''' then 0 else 1), s)),
      usage_len = (\<lambda>u. u),
      LoadResources = (\<lambda>v u s. (Inr (v, []), s)),
      PopulatePrices = (\<lambda>project s. ((fails (fst project), (fst project, snd project @ [''priced''])), s)),
      CalculateCosts = (\<lambda>project. (fst project, snd project @ [''costed''])),
      CalculateDiff = (\<lambda>project. (fst project, snd project @ [''diffed''])),
      Unwrap = (\<lambda>e. if e = 1 then Some 0 else None),
      Is_method = (\<lambda>e t. False),
      Error = (\<lambda>e. if e = 0 then ''Invalid API key''
                      else if e = 1 then ''query failed: Invalid API key''
                      else ''Pricing API returned status 500''),
      ErrInvalidAPIKey = 0,
      is_PricingAPIError = (\<lambda>e. e = 2),
      CredentialsFilePath = ''/home/user/.config/infracost/credentials.yml'',
      PrimaryString = (\<lambda>m. m),
      ToOutputFormat = map fst,
      SetOutputEnvironment = (\<lambda>outputCfg s. s),
      ToLower = (\<lambda>f. f),
      ToJSON = (\<lambda>r opts. (concat r, None)),
      ToHTML = (\<lambda>r opts. (concat r, None)),
      ToDiff = (\<lambda>r opts. (concat r, None)),
      ToTableDeprecated = (\<lambda>r opts. (concat r, None)),
      ToTable = (\<lambda>r opts. (concat r, None)),
      WriteFile = (\<lambda>path out s. (None, s)) \<rparr>"

definition two_projects :: "unit state" where
  "two_projects = \<lparr> world = (), Terraform = [0, 1], Outputs = [0], NoColor = False,
     HasUsageFile = False,
     tfProjects = (\<lambda>a. \<lparr> Path = (if a = 0 then ''a'' else ''b''), UseState = False,
       PlanFlags = '''', UsageFile = '''' \<rparr>),
     outputs = (\<lambda>_. \<lparr> Format = ''json'', ShowSkipped = False, out_Path = '''' \<rparr>),
     used = 2 \<rparr>"

text \<open>
  Three behaviours of \<open>prices.PopulatePrices\<close>: the project \<open>b\<close> fails with the wrapped
  invalid API key error, the project \<open>a\<close> fails with the pricing API error, nothing fails.
\<close>

definition key_fails_b :: "string \<Rightarrow> nat option" where
  "key_fails_b name = (if name = ''b'' then Some 1 else None)"


definition none_fails :: "string \<Rightarrow> nat option" where
  "none_fails name = None"

text \<open>
  A cost component with an hourly quantity of 3 and the price 0.05; and the project of the
  specification's scenario, two resources whose cost components have the same filters,
  with a catalog that answers every query with the price 0.05 and one whose first query
  fails with a retryable error; and a division of decimals that truncates the quotient of
  the coefficients.
\<close>

definition hourly_component :: PricedComponent where
  "hourly_component =
    \<lparr> cc_Name = ''Instance usage'', cc_Unit = ''hours'',
      cc_UnitMultiplier = Decimal 1 0,
      cc_HourlyQuantity = Some (Decimal 3 0), cc_MonthlyQuantity = None,
      cc_ProductFilter = None, cc_PriceFilter = None,
      Price = Resolved (Decimal 5 (-2)), HourlyCost = NotCalculated,
      MonthlyCost = NotCalculated \<rparr>"





definition truncated_quotient :: "decimal \<Rightarrow> decimal \<Rightarrow> decimal" where
  "truncated_quotient a b =
    Decimal (coefficient a div coefficient b) (exponent a - exponent b)"

section \<open>Properties of the Elastic IP resource\<close>

lemma BuildResource_attached:
  "CustomerOwnedIPv4Pool r \<noteq> '''' \<or> Instance r \<noteq> '''' \<or> NetworkInterface r \<noteq> '''' \<Longrightarrow>
   BuildResource r = Resource (Address r) [] [] True True EIPUsageSchema"
  by (simp add: BuildResource_def)

text \<open>
  Claim C3. Every resource that \<open>EIP.BuildResource\<close> returns, whatever the EIP, satisfies the
  invariant: if \<open>NoPrice\<close> is false, it has at least one cost component or \<open>IsSkipped\<close> is
  true. The resource is a leaf: it has no sub-resources.
\<close>

theorem C3_BuildResource_invariant:
  "res_SubResources (BuildResource r) = [] \<and>
   (res_NoPrice (BuildResource r) = False \<longrightarrow>
      res_CostComponents (BuildResource r) \<noteq> [] \<or> res_IsSkipped (BuildResource r) = True)"
  by (simp add: BuildResource_def)

theorem C3_BuildResource_invariant_witness:
  "res_NoPrice (BuildResource \<lparr> Address = ''aws_eip.ip'', Region = ''us-east-1'',
      CustomerOwnedIPv4Pool = '''', Instance = '''', NetworkInterface = '''' \<rparr>) = False \<and>
   res_CostComponents (BuildResource \<lparr> Address = ''aws_eip.ip'', Region = ''us-east-1'',
      CustomerOwnedIPv4Pool = '''', Instance = '''', NetworkInterface = '''' \<rparr>) \<noteq> []"
  using C3_BuildResource_invariant [of "\<lparr> Address = ''aws_eip.ip'', Region = ''us-east-1'',
      CustomerOwnedIPv4Pool = '''', Instance = '''', NetworkInterface = '''' \<rparr>"]
  by (simp add: BuildResource_def)

text \<open>
  Claim C4. For an EIP whose \<open>CustomerOwnedIPv4Pool\<close>, \<open>Instance\<close> and \<open>NetworkInterface\<close> are
  all empty, \<open>EIP.BuildResource\<close> returns a resource with exactly one cost component, named
  "IP address (if unused)", with unit "hours", unit multiplier 1, hourly quantity set to 1 and
  no monthly quantity.
\<close>

theorem C4_BuildResource_unused:
  assumes "CustomerOwnedIPv4Pool r = ''''" and "Instance r = ''''"
    and "NetworkInterface r = ''''"
  shows "\<exists>c. res_CostComponents (BuildResource r) = [c] \<and>
    cc_Name c = ''IP address (if unused)'' \<and>
    cc_Unit c = ''hours'' \<and>
    cc_UnitMultiplier c = NewFromInt 1 \<and>
    cc_HourlyQuantity c = Some (NewFromInt 1) \<and>
    cc_MonthlyQuantity c = None"
  using assms by (simp add: BuildResource_def decimalPtr_def)

theorem C4_BuildResource_unused_witness:
  "\<exists>c. res_CostComponents (BuildResource \<lparr> Address = ''aws_eip.ip'', Region = ''eu-west-1'',
      CustomerOwnedIPv4Pool = '''', Instance = '''', NetworkInterface = '''' \<rparr>) = [c] \<and>
    cc_Name c = ''IP address (if unused)'' \<and>
    cc_Unit c = ''hours'' \<and>
    cc_UnitMultiplier c = Decimal 1 0 \<and>
    cc_HourlyQuantity c = Some (Decimal 1 0) \<and>
    cc_MonthlyQuantity c = None"
  using C4_BuildResource_unused [of "\<lparr> Address = ''aws_eip.ip'', Region = ''eu-west-1'',
      CustomerOwnedIPv4Pool = '''', Instance = '''', NetworkInterface = '''' \<rparr>"]
  by (simp add: NewFromInt_def)

text \<open>
  Claim C5. For an EIP with a non-empty \<open>CustomerOwnedIPv4Pool\<close>, \<open>Instance\<close> or
  \<open>NetworkInterface\<close>, \<open>EIP.BuildResource\<close> returns a resource with \<open>NoPrice\<close> true,
  \<open>IsSkipped\<close> true and no cost components.
\<close>

theorem C5_BuildResource_attached:
  assumes "CustomerOwnedIPv4Pool r \<noteq> '''' \<or> Instance r \<noteq> '''' \<or> NetworkInterface r \<noteq> ''''"
  shows "res_NoPrice (BuildResource r) = True \<and>
    res_IsSkipped (BuildResource r) = True \<and>
    res_CostComponents (BuildResource r) = []"
  using assms by (simp add: BuildResource_attached)

theorem C5_BuildResource_attached_witness:
  "res_NoPrice (BuildResource \<lparr> Address = ''aws_eip.nat'', Region = ''us-east-1'',
      CustomerOwnedIPv4Pool = '''', Instance = ''i-0abc'', NetworkInterface = '''' \<rparr>) = True \<and>
   res_IsSkipped (BuildResource \<lparr> Address = ''aws_eip.nat'', Region = ''us-east-1'',
      CustomerOwnedIPv4Pool = '''', Instance = ''i-0abc'', NetworkInterface = '''' \<rparr>) = True \<and>
   res_CostComponents (BuildResource \<lparr> Address = ''aws_eip.nat'', Region = ''us-east-1'',
      CustomerOwnedIPv4Pool = '''', Instance = ''i-0abc'', NetworkInterface = '''' \<rparr>) = []"
  using C5_BuildResource_attached [of "\<lparr> Address = ''aws_eip.nat'', Region = ''us-east-1'',
      CustomerOwnedIPv4Pool = '''', Instance = ''i-0abc'', NetworkInterface = '''' \<rparr>"]
  by simp

section \<open>Properties of \<open>unwrapped\<close> and \<open>errors.Is\<close>\<close>

lemma unwrapped_leaf: "U a = None \<Longrightarrow> unwrapped U (Some a) = Some (Some a)"
  by (subst unwrapped.simps) (simp add: errors_Unwrap_def)

lemma unwrapped_step: "U a = Some b \<Longrightarrow> unwrapped U (Some a) = unwrapped U (Some b)"
  by (subst unwrapped.simps) (simp add: errors_Unwrap_def)

lemma errors_Is_same: "errors_Is U M (Some a) (Some a) = Some True"
  by (simp add: errors_Is_def errors_Is_loop.simps)


lemma nth_cause_unique:
  "nth_cause U k a = Some d \<Longrightarrow> U d = None \<Longrightarrow> nth_cause U j a = Some e \<Longrightarrow> U e = None \<Longrightarrow>
   e = d"
proof (induction k arbitrary: a j)
  case 0
  then show ?case by (cases j) auto
next
  case (Suc k)
  then show ?case by (cases j) (auto split: option.splits)
qed

lemma unwrapped_finite:
  "nth_cause U n a = None \<Longrightarrow>
   \<exists>d k. unwrapped U (Some a) = Some (Some d) \<and> U d = None \<and> nth_cause U k a = Some d"
proof (induction n arbitrary: a)
  case 0
  then show ?case by simp
next
  case (Suc n)
  show ?case
  proof (cases "U a")
    case None
    then have "unwrapped U (Some a) = Some (Some a)" by (rule unwrapped_leaf)
    with None show ?thesis by (intro exI [of _ a] exI [of _ 0]) simp
  next
    case (Some b)
    with Suc.prems have "nth_cause U n b = None" by simp
    from Suc.IH [OF this] obtain d k where
      d: "unwrapped U (Some b) = Some (Some d)" "U d = None" "nth_cause U k b = Some d"
      by blast
    with Some show ?thesis
      by (intro exI [of _ d] exI [of _ "Suc k"]) (simp add: unwrapped_step)
  qed
qed

text \<open>
  The loop of \<open>unwrapped\<close> ends only on a finite chain: on a chain of causes that runs in a
  cycle the function does not return.
\<close>

lemma finite_chain_step:
  "finite_chain U a = (case U a of None \<Rightarrow> True | Some b \<Rightarrow> finite_chain U b)"
proof (cases "U a")
  case None
  then have "nth_cause U (Suc 0) a = None" by simp
  with None show ?thesis unfolding finite_chain_def by (auto simp del: nth_cause.simps)
next
  case (Some b)
  have "(\<exists>n. nth_cause U n a = None) = (\<exists>n. nth_cause U n b = None)"
  proof
    assume "\<exists>n. nth_cause U n a = None"
    then obtain n where n: "nth_cause U n a = None" ..
    then obtain m where "n = Suc m" by (cases n) auto
    with n Some show "\<exists>n. nth_cause U n b = None" by auto
  next
    assume "\<exists>n. nth_cause U n b = None"
    then obtain n where "nth_cause U n b = None" ..
    with Some have "nth_cause U (Suc n) a = None" by simp
    then show "\<exists>n. nth_cause U n a = None" ..
  qed
  with Some show ?thesis by (simp add: finite_chain_def)
qed

lemma unwrapped_returns_finite:
  assumes "unwrapped U e = Some r"
  shows "\<forall>a. e = Some a \<longrightarrow> finite_chain U a"
proof (rule unwrapped.raw_induct
    [where P = "\<lambda>U e r. \<forall>a. e = Some a \<longrightarrow> finite_chain U a", OF _ assms])
  fix f and U :: "'a \<Rightarrow> 'a option" and e r
  assume IH: "\<And>U e r. f U e = Some r \<Longrightarrow> \<forall>a. e = Some a \<longrightarrow> finite_chain U a"
    and body: "(if errors_Unwrap U e \<noteq> None then f U (errors_Unwrap U e) else Some e) = Some r"
  show "\<forall>a. e = Some a \<longrightarrow> finite_chain U a"
  proof (intro allI impI)
    fix a assume e: "e = Some a"
    show "finite_chain U a"
    proof (cases "U a")
      case None
      then show ?thesis by (subst finite_chain_step) simp
    next
      case (Some b)
      with body e have "f U (Some b) = Some r"
        by (simp add: errors_Unwrap_def)
      from IH [OF this] have "finite_chain U b" by simp
      with Some show ?thesis by (subst finite_chain_step) simp
    qed
  qed
qed

lemma unwrapped_cycle_hangs: "\<not> finite_chain U a \<Longrightarrow> unwrapped U (Some a) = None"
  using unwrapped_returns_finite [of U "Some a"] by (cases "unwrapped U (Some a)") auto

text \<open>
  Claim C9. For a non-nil error whose chain of \<open>errors.Unwrap\<close> causes is finite (so
  acyclic), \<open>unwrapped\<close> returns, and it returns the deepest error of the chain: an error \<open>d\<close>
  reached from \<open>err\<close> by repeated \<open>Unwrap\<close> whose own \<open>Unwrap\<close> is \<open>nil\<close>, the only such error
  of the chain. When \<open>err\<close> has no wrapped cause the result is \<open>err\<close> itself, not \<open>nil\<close>.
\<close>

theorem C9_unwrapped_deepest:
  assumes "finite_chain U a"
  shows "(\<exists>d. unwrapped U (Some a) = Some (Some d) \<and> U d = None \<and>
       (\<exists>k. nth_cause U k a = Some d) \<and>
       (\<forall>j e. nth_cause U j a = Some e \<and> U e = None \<longrightarrow> e = d)) \<and>
    (U a = None \<longrightarrow> unwrapped U (Some a) = Some (Some a))"
proof -
  from assms obtain n where "nth_cause U n a = None"
    by (auto simp: finite_chain_def)
  from unwrapped_finite [OF this] obtain d k where
    d: "unwrapped U (Some a) = Some (Some d)" "U d = None" "nth_cause U k a = Some d"
    by blast
  have "e = d" if "nth_cause U j a = Some e" "U e = None" for j e
    using nth_cause_unique [OF d(3) d(2) that] .
  with d have "\<exists>d. unwrapped U (Some a) = Some (Some d) \<and> U d = None \<and>
       (\<exists>k. nth_cause U k a = Some d) \<and>
       (\<forall>j e. nth_cause U j a = Some e \<and> U e = None \<longrightarrow> e = d)"
    by blast
  then show ?thesis
    by (simp add: unwrapped_leaf)
qed

theorem C9_unwrapped_deepest_witness:
  "finite_chain chain3 0 \<and> unwrapped chain3 (Some 0) = Some (Some 2) \<and> chain3 2 = None \<and>
   nth_cause chain3 2 0 = Some 2 \<and>
   unwrapped chain3 (Some 2) = Some (Some 2)"
proof -
  have "nth_cause chain3 3 0 = None"
    by (simp add: chain3_def numeral_3_eq_3)
  then have h: "finite_chain chain3 0"
    unfolding finite_chain_def by blast
  have c: "nth_cause chain3 2 0 = Some 2" "chain3 2 = None"
    by (simp_all add: chain3_def numeral_2_eq_2)
  from C9_unwrapped_deepest [OF h] obtain d where
    d: "unwrapped chain3 (Some 0) = Some (Some d)"
    "\<forall>j e. nth_cause chain3 j 0 = Some e \<and> chain3 e = None \<longrightarrow> e = d"
    by blast
  from d(2) c have "d = 2" by blast
  with d(1) h c show ?thesis
    by (simp add: unwrapped_leaf)
qed

section \<open>Properties of \<open>loadRunFlags\<close>\<close>

lemma loadRunFlags_exit:
  "Changed cmd ''config-file'' \<and>
     (Changed cmd ''path'' \<or> Changed cmd ''terraform-plan-flags'' \<or> Changed cmd ''usage-file'') \<Longrightarrow>
   loadRunFlags LoadFromFile LoadFromEnv cmd s =
     (Exited ''--config-file flag cannot be used with other project and output flags'', s)"
  unfolding loadRunFlags_def Let_def by (simp only: if_True simp_thms)

lemma loadRunFlags_no_exit:
  "\<not> (Changed cmd ''config-file'' \<and>
     (Changed cmd ''path'' \<or> Changed cmd ''terraform-plan-flags'' \<or> Changed cmd ''usage-file'')) \<Longrightarrow>
   \<exists>r. fst (loadRunFlags LoadFromFile LoadFromEnv cmd s) = Returned r"
  unfolding loadRunFlags_def Let_def
  by (simp only: if_False simp_thms split: prod.splits option.splits) simp

text \<open>
  Claim C10. \<open>loadRunFlags\<close> prints a usage error and exits exactly when the \<open>config-file\<close>
  flag is set together with one of the project flags \<open>path\<close>, \<open>terraform-plan-flags\<close> or
  \<open>usage-file\<close>. With \<open>config-file\<close> and none of these, whatever the output flags \<open>format\<close>
  and \<open>show-skipped\<close> are, it does not exit but returns, although the help text of
  \<open>config-file\<close> says that the flag cannot be used with other flags.
\<close>

theorem C10_loadRunFlags_rejects:
  "((\<exists>msg. fst (loadRunFlags LoadFromFile LoadFromEnv cmd s) = Exited msg) \<longleftrightarrow>
      Changed cmd ''config-file'' \<and>
      (Changed cmd ''path'' \<or> Changed cmd ''terraform-plan-flags'' \<or> Changed cmd ''usage-file''))
   \<and> (Changed cmd ''config-file'' \<and> \<not> Changed cmd ''path'' \<and>
        \<not> Changed cmd ''terraform-plan-flags'' \<and> \<not> Changed cmd ''usage-file'' \<longrightarrow>
        (\<exists>r. fst (loadRunFlags LoadFromFile LoadFromEnv cmd s) = Returned r))
   \<and> usage_of addRunInputFlags ''config-file'' =
        Some ''Path to the Infracost config file. Cannot be used with other flags''"
proof -
  let ?rejected = "Changed cmd ''config-file'' \<and>
      (Changed cmd ''path'' \<or> Changed cmd ''terraform-plan-flags'' \<or> Changed cmd ''usage-file'')"
  let ?out = "fst (loadRunFlags LoadFromFile LoadFromEnv cmd s)"
  have exits: "\<exists>msg. ?out = Exited msg" if ?rejected
    using that by (simp add: loadRunFlags_exit)
  have returns: "\<exists>r. ?out = Returned r" if "\<not> ?rejected"
    using that by (rule loadRunFlags_no_exit)
  have "(\<exists>msg. ?out = Exited msg) \<longleftrightarrow> ?rejected"
    using exits returns by (cases ?rejected) auto
  moreover have "Changed cmd ''config-file'' \<and> \<not> Changed cmd ''path'' \<and>
        \<not> Changed cmd ''terraform-plan-flags'' \<and> \<not> Changed cmd ''usage-file'' \<longrightarrow>
        (\<exists>r. ?out = Returned r)"
    using returns by blast
  moreover have "usage_of addRunInputFlags ''config-file'' =
        Some ''Path to the Infracost config file. Cannot be used with other flags''"
    by (simp add: usage_of_def addRunInputFlags_def)
  ultimately show ?thesis by blast
qed

theorem C10_loadRunFlags_rejects_witness:
  "Changed config_and_format ''config-file'' \<and> \<not> Changed config_and_format ''path'' \<and>
   \<not> Changed config_and_format ''terraform-plan-flags'' \<and>
   \<not> Changed config_and_format ''usage-file'' \<and>
   Changed config_and_format ''format'' \<and> Changed config_and_format ''show-skipped'' \<and>
   (\<exists>r. fst (loadRunFlags (\<lambda>f. noop_load) noop_load config_and_format empty_state) = Returned r) \<and>
   fst (loadRunFlags (\<lambda>f. noop_load) noop_load config_and_format empty_state) = Returned None \<and>
   Outputs (snd (loadRunFlags (\<lambda>f. noop_load) noop_load config_and_format empty_state)) = [1] \<and>
   outputs (snd (loadRunFlags (\<lambda>f. noop_load) noop_load config_and_format empty_state)) 1 =
     \<lparr> Format = ''json'', ShowSkipped = True, out_Path = '''' \<rparr>"
  using C10_loadRunFlags_rejects [of "\<lambda>f. noop_load" noop_load config_and_format empty_state]
  by (simp add: config_and_format_def loadRunFlags_def noop_load_def empty_state_def
      new_TerraformProject_def new_Output_def)

section \<open>Properties of \<open>runMain\<close>\<close>

lemma ordered_append:
  "ordered n h (xs @ ys) = (ordered n h xs \<and> ordered n (h @ xs) ys)"
  by (induction xs arbitrary: h) auto

lemma nofail_append [simp]: "nofail (xs @ ys) = (nofail xs \<and> nofail ys)"
  by (auto simp: nofail_def)

lemma nofail_Nil [simp]: "nofail []"
  by (simp add: nofail_def)

lemma nofail_Cons [simp]: "nofail (e # es) = (\<not> failed e \<and> nofail es)"
  by (simp add: nofail_def)

lemma ordered_split:
  "ordered n h tr \<Longrightarrow> tr = xs @ e # ys \<Longrightarrow> pre n (h @ xs) e"
  by (simp add: ordered_append)

lemma loadProjects_events:
  fixes X :: "('w, 'e, 'u, 'v, 'p, 'r) externals"
  shows "loadProjects X i pcs s = (r, s', evs) \<Longrightarrow> nofail h \<Longrightarrow>
   ordered n h evs \<and> (\<forall>e \<in> set evs. load_event e) \<and>
   (\<forall>ps. r = Inr ps \<longrightarrow> nofail evs \<and> length ps = length pcs \<and>
      (\<forall>j. i \<le> j \<and> j < i + length pcs \<longrightarrow>
         EvLoadFromFile j True \<in> set evs \<and> EvLoadResources j True \<in> set evs))"
proof (induction pcs arbitrary: i s r s' evs h)
  case Nil
  then show ?case by auto
next
  case (Cons pc pcs)
  show ?case
  proof (cases "Detect X pc (SetTerraformEnvironment X pc s)")
    case (Pair dv s2)
    show ?thesis
    proof (cases dv)
      case None
      with Pair Cons.prems show ?thesis by (auto simp: Let_def)
    next
      case (Some provider)
      define m where "m = ''Detected '' @ provider_Type X provider @ '' at '' @ Path (tfProjects s2 pc)"
      define shown :: "'e event" where
        "shown = (if IsLogging X s2 then EvLogInfo m else EvStderr (m @ newline))"
      have shown: "load_event shown" "\<not> failed shown"
        by (simp_all add: shown_def)
      obtain lr s3 where lf: "usage_LoadFromFile X (UsageFile (tfProjects s2 pc)) s2 = (lr, s3)"
        by (cases "usage_LoadFromFile X (UsageFile (tfProjects s2 pc)) s2")
      show ?thesis
      proof (cases lr)
        case (Inl err)
        with Pair Some lf Cons.prems shown show ?thesis
          by (auto simp: Let_def m_def shown_def)
      next
        case (Inr u)
        define s4 where "s4 = (if usage_len X u > 0 then s3\<lparr> HasUsageFile := True \<rparr> else s3)"
        obtain rr s5 where lres: "LoadResources X provider u s4 = (rr, s5)"
          by (cases "LoadResources X provider u s4")
        show ?thesis
        proof (cases rr)
          case (Inl err)
          with Pair Some lf Inr lres Cons.prems shown show ?thesis
            by (auto simp: Let_def m_def shown_def s4_def)
        next
          case (Inr project)
          obtain r6 s6 evs6 where rec: "loadProjects X (Suc i) pcs s5 = (r6, s6, evs6)"
            by (cases "loadProjects X (Suc i) pcs s5")
          let ?pfx = "[EvDetect i True, shown, EvLoadFromFile i True, EvLoadResources i True]"
          from Pair Some lf \<open>lr = Inr u\<close> lres Inr rec Cons.prems(1)
          have res: "r = map_sum id ((#) project) r6" "evs = ?pfx @ evs6"
            by (auto simp: Let_def m_def shown_def s4_def)
          have "nofail (h @ ?pfx)"
            using Cons.prems(2) shown by simp
          from Cons.IH [OF rec this]
          have IH: "ordered n (h @ ?pfx) evs6" "\<forall>e \<in> set evs6. load_event e"
            "\<And>ps. r6 = Inr ps \<Longrightarrow> nofail evs6 \<and> length ps = length pcs \<and>
              (\<forall>j. Suc i \<le> j \<and> j < Suc i + length pcs \<longrightarrow>
                EvLoadFromFile j True \<in> set evs6 \<and> EvLoadResources j True \<in> set evs6)"
            by blast+
          have 1: "ordered n h evs"
            unfolding res ordered_append using IH(1) Cons.prems(2) shown
            by (cases "IsLogging X s2") (simp_all add: shown_def)
          have 2: "\<forall>e \<in> set evs. load_event e"
            unfolding res using IH(2) shown by simp
          have 3: "nofail evs \<and> length ps = length (pc # pcs) \<and>
              (\<forall>j. i \<le> j \<and> j < i + length (pc # pcs) \<longrightarrow>
                EvLoadFromFile j True \<in> set evs \<and> EvLoadResources j True \<in> set evs)"
            if "r = Inr ps" for ps
          proof -
            from that res obtain ps6 where ps6: "r6 = Inr ps6" "ps = project # ps6"
              by (cases r6) auto
            from IH(3) [OF ps6(1)] have a: "nofail evs6" "length ps6 = length pcs"
              and b: "\<And>j. Suc i \<le> j \<Longrightarrow> j < Suc i + length pcs \<Longrightarrow>
                EvLoadFromFile j True \<in> set evs6 \<and> EvLoadResources j True \<in> set evs6"
              by blast+
            have "EvLoadFromFile j True \<in> set evs \<and> EvLoadResources j True \<in> set evs"
              if "i \<le> j" "j < i + length (pc # pcs)" for j
            proof (cases "j = i")
              case True
              then show ?thesis unfolding res by simp
            next
              case False
              with that have "Suc i \<le> j" "j < Suc i + length pcs" by simp_all
              from b [OF this] show ?thesis unfolding res by simp
            qed
            with a ps6 shown show ?thesis unfolding res by simp
          qed
          from 1 2 3 show ?thesis by blast
        qed
      qed
    qed
  qed
qed

lemma priced_0 [simp]: "priced i 0 = []"
  by (simp add: priced_def)

lemma priced_Suc:
  "priced i (Suc k) =
    [EvPopulatePrices i None, EvCalculateCosts i, EvCalculateDiff i] @ priced (Suc i) k"
  by (simp add: priced_def upt_rec)

lemma priced_snoc:
  "priced i (Suc k) =
    priced i k @ [EvPopulatePrices (i + k) None, EvCalculateCosts (i + k), EvCalculateDiff (i + k)]"
  by (simp add: priced_def)

lemma set_priced:
  "set (priced i k) =
    (\<Union>j \<in> {i ..< i + k}. {EvPopulatePrices j None, EvCalculateCosts j, EvCalculateDiff j})"
  by (auto simp: priced_def)

lemma priceProjects_events:
  fixes X :: "('w, 'e, 'u, 'v, 'p, 'r) externals"
  shows "priceProjects X i ps s = (r, s', evs) \<Longrightarrow>
   (case r of
      Inr ps' \<Rightarrow> length ps' = length ps \<and> evs = priced i (length ps)
    | Inl res \<Rightarrow> (\<exists>k err. k < length ps \<and> res = priceFailure X err \<and>
        evs = priced i k @ [EvPopulatePrices (i + k) (Some err), EvSpinnerFail, EvStderr newline]))"
proof (induction ps arbitrary: i s r s' evs)
  case Nil
  then show ?case by auto
next
  case (Cons project ps)
  obtain err project1 s1 where pp: "PopulatePrices X project s = ((err, project1), s1)"
    by (cases "PopulatePrices X project s") auto
  show ?case
  proof (cases err)
    case (Some e)
    with pp Cons.prems have "r = Inl (priceFailure X e)"
      "evs = priced i 0 @ [EvPopulatePrices (i + 0) (Some e), EvSpinnerFail, EvStderr newline]"
      by auto
    then show ?thesis by (auto intro!: exI [of _ 0])
  next
    case None
    obtain r2 s2 evs2 where rec:
      "priceProjects X (Suc i) ps s1 = (r2, s2, evs2)"
      by (cases "priceProjects X (Suc i) ps s1")
    from pp None rec Cons.prems
    have res: "r = map_sum id ((#) (CalculateDiff X (CalculateCosts X project1))) r2"
      "evs = [EvPopulatePrices i None, EvCalculateCosts i, EvCalculateDiff i] @ evs2"
      by (auto simp: Let_def)
    note IH = Cons.IH [OF rec]
    show ?thesis
    proof (cases r2)
      case (Inr ps2)
      with IH res show ?thesis by (simp add: priced_Suc)
    next
      case (Inl res2)
      with IH obtain k e where k: "k < length ps" "res2 = priceFailure X e"
        "evs2 = priced (Suc i) k @ [EvPopulatePrices (Suc i + k) (Some e), EvSpinnerFail, EvStderr newline]"
        by auto
      with Inl res show ?thesis
        by (auto intro!: exI [of _ "Suc k"] exI [of _ e] simp: priced_Suc)
    qed
  qed
qed

lemma nofail_priced [simp]: "nofail (priced i k)"
  by (auto simp: nofail_def set_priced)

lemma ordered_priced:
  "nofail h \<Longrightarrow> \<forall>j. i \<le> j \<and> j < i + k \<longrightarrow> EvLoadResources j True \<in> set h \<Longrightarrow>
   ordered n h (priced i k)"
proof (induction k)
  case 0
  then show ?case by simp
next
  case (Suc k)
  then have "ordered n h (priced i k)" by simp
  then show ?case
    using Suc.prems by (simp add: priced_snoc ordered_append)
qed

lemma writeOutputs_events:
  fixes X :: "('w, 'e, 'u, 'v, 'p, 'r) externals"
  shows "writeOutputs X r i ocs s = (res, s', evs) \<Longrightarrow> \<forall>e \<in> set evs. render_event e"
proof (induction ocs arbitrary: i s res s' evs)
  case Nil
  then show ?case by auto
next
  case (Cons oc ocs)
  define s1 where "s1 = SetOutputEnvironment X oc s"
  obtain out err where rd: "render X (Format (outputs s1 oc)) r
      \<lparr> opt_ShowSkipped = ShowSkipped (outputs s1 oc), opt_NoColor = NoColor s1 \<rparr> = (out, err)"
    by (cases "render X (Format (outputs s1 oc)) r
      \<lparr> opt_ShowSkipped = ShowSkipped (outputs s1 oc), opt_NoColor = NoColor s1 \<rparr>")
  show ?case
  proof (cases err)
    case (Some e)
    with rd Cons.prems show ?thesis by (auto simp: Let_def s1_def)
  next
    case None
    show ?thesis
    proof (cases "out_Path (outputs s1 oc) \<noteq> ''''")
      case True
      obtain werr s2 where wf: "WriteFile X (out_Path (outputs s1 oc)) out s1 = (werr, s2)"
        by (cases "WriteFile X (out_Path (outputs s1 oc)) out s1")
      show ?thesis
      proof (cases werr)
        case (Some e)
        with rd None True wf Cons.prems show ?thesis by (auto simp: Let_def s1_def)
      next
        case werr: None
        obtain res3 s3 evs3 where rec: "writeOutputs X r (Suc i) ocs s2 = (res3, s3, evs3)"
          by (cases "writeOutputs X r (Suc i) ocs s2")
        from Cons.IH [OF rec] rd None True wf werr rec Cons.prems show ?thesis
          by (auto simp: Let_def s1_def)
      qed
    next
      case False
      obtain res3 s3 evs3 where rec: "writeOutputs X r (Suc i) ocs s1 = (res3, s3, evs3)"
        by (cases "writeOutputs X r (Suc i) ocs s1")
      from Cons.IH [OF rec] rd None False rec Cons.prems show ?thesis
        by (auto simp: Let_def s1_def)
    qed
  qed
qed

lemma ordered_render:
  "\<forall>e \<in> set evs. render_event e \<Longrightarrow> EvToOutputFormat \<in> set h \<Longrightarrow> ordered n h evs"
proof (induction evs arbitrary: h)
  case Nil
  then show ?case by simp
next
  case (Cons e evs)
  then show ?case by (cases e) auto
qed

text \<open>
  A run of \<open>runMain\<close> ends in the first loop, or in the second loop at the first project
  whose prices could not be populated, or goes through the output.
\<close>

lemma runMain_cases:
  fixes X :: "('w, 'e, 'u, 'v, 'p, 'r) externals"
  assumes "runMain X cfg = (res, s, tr)"
  obtains
    (load_failed) err evs1 where
      "loadProjects X 0 (Terraform cfg) cfg = (Inl err, s, evs1)"
      "res = Return (Some err)" "tr = evs1"
  | (price_failed) projects s1 evs1 k err where
      "loadProjects X 0 (Terraform cfg) cfg = (Inr projects, s1, evs1)"
      "k < length projects" "res = priceFailure X err"
      "tr = evs1 @ [EvNewSpinner] @ priced 0 k @
         [EvPopulatePrices k (Some err), EvSpinnerFail, EvStderr newline]"
  | (priced_all) projects s1 evs1 projects2 s2 r evs3 where
      "loadProjects X 0 (Terraform cfg) cfg = (Inr projects, s1, evs1)"
      "writeOutputs X (ToOutputFormat X projects2) 0 (Outputs s2) s2 = (r, s, evs3)"
      "res = Return r"
      "tr = evs1 @ [EvNewSpinner] @ priced 0 (length projects) @
         [EvSpinnerSuccess, EvToOutputFormat] @ evs3"
proof -
  obtain r1 s1 evs1 where l: "loadProjects X 0 (Terraform cfg) cfg = (r1, s1, evs1)"
    by (cases "loadProjects X 0 (Terraform cfg) cfg")
  show thesis
  proof (cases r1)
    case (Inl err)
    with l assms show thesis by (intro load_failed [of err evs1]) (auto simp: runMain_def)
  next
    case (Inr projects)
    obtain r2 s2 evs2 where p: "priceProjects X 0 projects s1 = (r2, s2, evs2)"
      by (cases "priceProjects X 0 projects s1")
    show thesis
    proof (cases r2)
      case (Inl res2)
      with priceProjects_events [OF p] obtain k err where
        k: "k < length projects" "res2 = priceFailure X err"
        "evs2 = priced 0 k @ [EvPopulatePrices k (Some err), EvSpinnerFail, EvStderr newline]"
        by auto
      with l Inr p Inl assms show thesis
        by (intro price_failed [of projects s1 evs1 k err]) (auto simp: runMain_def)
    next
      case r2: (Inr projects2)
      with priceProjects_events [OF p] have
        e2: "evs2 = priced 0 (length projects)" by simp
      obtain r s3 evs3 where
        w: "writeOutputs X (ToOutputFormat X projects2) 0 (Outputs s2) s2 = (r, s3, evs3)"
        by (cases "writeOutputs X (ToOutputFormat X projects2) 0 (Outputs s2) s2")
      with l Inr p r2 e2 assms show thesis
        by (intro priced_all [of projects s1 evs1 projects2 s2 r evs3])
          (auto simp: runMain_def Let_def)
    qed
  qed
qed

lemma runMain_ordered:
  fixes X :: "('w, 'e, 'u, 'v, 'p, 'r) externals"
  assumes "runMain X cfg = (res, s, tr)"
  shows "ordered (length (Terraform cfg)) [] tr"
  using assms
proof (cases rule: runMain_cases)
  case (load_failed err evs1)
  with loadProjects_events [OF load_failed(1), of "[]"] show ?thesis by simp
next
  case (price_failed projects s1 evs1 k err)
  from loadProjects_events [OF price_failed(1), of "[]" "length (Terraform cfg)"]
  have 1: "ordered (length (Terraform cfg)) [] evs1" "nofail evs1"
    "length projects = length (Terraform cfg)"
    "\<And>j. j < length (Terraform cfg) \<Longrightarrow> EvLoadResources j True \<in> set evs1"
    by auto
  have "ordered (length (Terraform cfg)) (evs1 @ [EvNewSpinner]) (priced 0 k)"
    using 1 price_failed(2) by (intro ordered_priced) auto
  with 1 price_failed(2) show ?thesis
    unfolding price_failed(4) by (simp add: ordered_append)
next
  case (priced_all projects s1 evs1 projects2 s2 r evs3)
  let ?n = "length (Terraform cfg)"
  from loadProjects_events [OF priced_all(1), of "[]" ?n]
  have 1: "ordered ?n [] evs1" "nofail evs1" "length projects = ?n"
    "\<And>j. j < ?n \<Longrightarrow> EvLoadFromFile j True \<in> set evs1"
    "\<And>j. j < ?n \<Longrightarrow> EvLoadResources j True \<in> set evs1"
    by auto
  have 2: "ordered ?n (evs1 @ [EvNewSpinner]) (priced 0 ?n)"
    using 1 by (intro ordered_priced) auto
  have 3: "ordered ?n (evs1 @ [EvNewSpinner] @ priced 0 ?n @ [EvSpinnerSuccess, EvToOutputFormat]) evs3"
    using writeOutputs_events [OF priced_all(2)] by (intro ordered_render) auto
  have 4: "pre ?n (evs1 @ [EvNewSpinner] @ priced 0 ?n @ [EvSpinnerSuccess]) EvToOutputFormat"
    using 1 by (auto simp: set_priced)
  from 1 2 3 4 show ?thesis
    unfolding priced_all(4) by (simp add: ordered_append)
qed

lemma load_event_not_price:
  "\<forall>e \<in> set evs. load_event e \<Longrightarrow>
   EvPopulatePrices k err \<notin> set evs \<and> EvCalculateCosts k \<notin> set evs \<and>
   EvCalculateDiff k \<notin> set evs \<and> (\<forall>e \<in> set evs. \<not> output_event e)"
proof (intro conjI ballI)
  assume a: "\<forall>e \<in> set evs. load_event e"
  show "EvPopulatePrices k err \<notin> set evs" using a by force
  show "EvCalculateCosts k \<notin> set evs" using a by force
  show "EvCalculateDiff k \<notin> set evs" using a by force
  fix e assume "e \<in> set evs"
  with a have "load_event e" by blast
  then show "\<not> output_event e" by (cases e) auto
qed

lemma runMain_price_failed:
  fixes X :: "('w, 'e, 'u, 'v, 'p, 'r) externals"
  assumes "EvPopulatePrices k (Some err) \<in> set (events X cfg)"
  shows "result X cfg = priceFailure X err \<and>
    (\<exists>evs1. (\<forall>e \<in> set evs1. load_event e) \<and>
      events X cfg = evs1 @ [EvNewSpinner] @ priced 0 k @
        [EvPopulatePrices k (Some err), EvSpinnerFail, EvStderr newline])"
proof -
  obtain res s tr where run: "runMain X cfg = (res, s, tr)"
    by (cases "runMain X cfg")
  then have ev: "events X cfg = tr" and rs: "result X cfg = res"
    by (simp_all add: events_def result_def)
  from run show ?thesis
  proof (cases rule: runMain_cases)
    case (load_failed err1 evs1)
    from loadProjects_events [OF load_failed(1), of "[]" 0]
    have "\<forall>e \<in> set evs1. load_event e" by simp
    from load_event_not_price [OF this] assms ev load_failed(3)
    show ?thesis by auto
  next
    case (price_failed projects s1 evs1 k' err')
    from loadProjects_events [OF price_failed(1), of "[]" 0]
    have l: "\<forall>e \<in> set evs1. load_event e" by simp
    from load_event_not_price [OF this, of k "Some err"] assms ev price_failed(4)
    have "k' = k \<and> err' = err" by (auto simp: set_priced)
    with price_failed l ev rs show ?thesis by auto
  next
    case (priced_all projects s1 evs1 projects2 s2 r evs3)
    from loadProjects_events [OF priced_all(1), of "[]" 0]
    have l: "\<forall>e \<in> set evs1. load_event e" by simp
    have "EvPopulatePrices k (Some err) \<notin> set evs3"
      using writeOutputs_events [OF priced_all(2)] by force
    with load_event_not_price [OF l, of k "Some err"] assms ev priced_all(4)
    show ?thesis by (auto simp: set_priced)
  qed
qed

lemma price_failed_trace:
  assumes "\<forall>e \<in> set evs1. load_event e"
    and "tr = evs1 @ [EvNewSpinner] @ priced 0 k @
        [EvPopulatePrices k (Some err), EvSpinnerFail, EvStderr newline]"
  shows "(\<forall>j \<ge> k. EvCalculateCosts j \<notin> set tr \<and> EvCalculateDiff j \<notin> set tr) \<and>
    (\<forall>e \<in> set tr. \<not> output_event e)"
proof -
  have "EvCalculateCosts j \<notin> set tr \<and> EvCalculateDiff j \<notin> set tr" if "j \<ge> k" for j
    using load_event_not_price [OF assms(1), of j None] that
    by (auto simp: assms(2) set_priced)
  moreover have "\<forall>e \<in> set tr. \<not> output_event e"
    using load_event_not_price [OF assms(1), of 0 None]
    by (auto simp: assms(2) set_priced)
  ultimately show ?thesis by blast
qed



text \<open>The events of three runs over two projects.\<close>

lemma demo_key_events:
  "events (demo key_fails_b) two_projects =
    [EvDetect 0 True, EvStderr (''Detected terraform_dir at a'' @ newline),
     EvLoadFromFile 0 True, EvLoadResources 0 True,
     EvDetect 1 True, EvStderr (''Detected terraform_dir at b'' @ newline),
     EvLoadFromFile 1 True, EvLoadResources 1 True,
     EvNewSpinner,
     EvPopulatePrices 0 None, EvCalculateCosts 0, EvCalculateDiff 0,
     EvPopulatePrices 1 (Some 1), EvSpinnerFail, EvStderr newline]"
  by (simp add: events_def runMain_def demo_def two_projects_def key_fails_b_def Let_def)



lemma demo_ok_events:
  "events (demo none_fails) two_projects =
    [EvDetect 0 True, EvStderr (''Detected terraform_dir at a'' @ newline),
     EvLoadFromFile 0 True, EvLoadResources 0 True,
     EvDetect 1 True, EvStderr (''Detected terraform_dir at b'' @ newline),
     EvLoadFromFile 1 True, EvLoadResources 1 True,
     EvNewSpinner,
     EvPopulatePrices 0 None, EvCalculateCosts 0, EvCalculateDiff 0,
     EvPopulatePrices 1 None, EvCalculateCosts 1, EvCalculateDiff 1,
     EvSpinnerSuccess, EvToOutputFormat, EvRender 0 True, EvPrintf (''ab'' @ newline)]"
  by (simp add: events_def runMain_def demo_def two_projects_def none_fails_def Let_def render_def)

text \<open>
  Claim C1. When \<open>prices.PopulatePrices\<close> returns, for the project at position \<open>k\<close>, an error
  whose fully unwrapped cause is \<open>prices.ErrInvalidAPIKey\<close>, \<open>runMain\<close> returns a non-nil error
  whose message names the credentials file path and the \<open>INFRACOST_API_KEY\<close> environment
  variable (each as \<open>ui.PrimaryString\<close> renders it); it calls neither \<open>schema.CalculateCosts\<close>
  nor \<open>project.CalculateDiff\<close> for that project or a later one; and it converts, renders,
  writes and prints no output.
\<close>

theorem C1_runMain_invalid_api_key:
  fixes X :: "('w, 'e, 'u, 'v, 'p, 'r) externals"
  assumes "EvPopulatePrices k (Some err) \<in> set (events X cfg)"
    and "unwrapped (Unwrap X) (Some err) = Some (Some (ErrInvalidAPIKey X))"
  shows "result X cfg = Return (Some (errors_New
      (Error X (ErrInvalidAPIKey X) @ newline @
       ''Please check your '' @ PrimaryString X (CredentialsFilePath X) @
       '' file or '' @ PrimaryString X ''INFRACOST_API_KEY'' @
       '' environment variable.'' @ newline @
       ''If you continue having issues please email hello@infracost.io''))) \<and>
    (\<forall>j \<ge> k. EvCalculateCosts j \<notin> set (events X cfg) \<and>
       EvCalculateDiff j \<notin> set (events X cfg)) \<and>
    (\<forall>e \<in> set (events X cfg). \<not> output_event e)"
proof -
  from runMain_price_failed [OF assms(1)] obtain evs1 where
    r: "result X cfg = priceFailure X err" and l: "\<forall>e \<in> set evs1. load_event e"
    and tr: "events X cfg = evs1 @ [EvNewSpinner] @ priced 0 k @
        [EvPopulatePrices k (Some err), EvSpinnerFail, EvStderr newline]"
    by blast
  have "priceFailure X err =
    Return (Some (errors_New (invalidAPIKeyMessage X (ErrInvalidAPIKey X))))"
    by (simp add: priceFailure_def assms(2) errors_Is_same)
  with r price_failed_trace [OF l tr] show ?thesis
    by (simp add: invalidAPIKeyMessage_def)
qed

theorem C1_runMain_invalid_api_key_witness:
  "EvPopulatePrices 1 (Some 1) \<in> set (events (demo key_fails_b) two_projects) \<and>
   unwrapped (Unwrap (demo key_fails_b)) (Some 1) = Some (Some (ErrInvalidAPIKey (demo key_fails_b))) \<and>
   result (demo key_fails_b) two_projects = Return (Some (errors_New
     (''Invalid API key'' @ newline @
      ''Please check your /home/user/.config/infracost/credentials.yml file or INFRACOST_API_KEY environment variable.'' @
      newline @ ''If you continue having issues please email hello@infracost.io''))) \<and>
   EvCalculateCosts 0 \<in> set (events (demo key_fails_b) two_projects) \<and>
   EvCalculateCosts 1 \<notin> set (events (demo key_fails_b) two_projects) \<and>
   EvCalculateDiff 1 \<notin> set (events (demo key_fails_b) two_projects) \<and>
   EvToOutputFormat \<notin> set (events (demo key_fails_b) two_projects)"
proof -
  have h1: "EvPopulatePrices 1 (Some 1) \<in> set (events (demo key_fails_b) two_projects)"
    by (simp add: demo_key_events)
  have h2: "unwrapped (Unwrap (demo key_fails_b)) (Some 1) =
      Some (Some (ErrInvalidAPIKey (demo key_fails_b)))"
    by (simp add: unwrapped_step unwrapped_leaf demo_def)
  from C1_runMain_invalid_api_key [OF h1 h2] h1 h2 show ?thesis
    by (simp add: demo_key_events) (simp add: demo_def)
qed




text \<open>
  Claim C6. The stages of \<open>runMain\<close> run in the order of the pipeline. Take any event \<open>e\<close> of
  a run and the events \<open>before\<close> it. The resources of a project are loaded after its usage
  file was loaded; its prices are populated after its resources were loaded; its costs are
  calculated after its prices were populated; its diff is computed after its costs were
  calculated; the output is converted after every project of the configuration has gone
  through all of these stages; and no stage runs once a call before it has returned an
  error.
\<close>

theorem C6_runMain_stage_order:
  fixes X :: "('w, 'e, 'u, 'v, 'p, 'r) externals"
  assumes "events X cfg = before @ e # after"
  shows "(\<forall>i ok. e = EvLoadResources i ok \<longrightarrow> EvLoadFromFile i True \<in> set before) \<and>
    (\<forall>i err. e = EvPopulatePrices i err \<longrightarrow> EvLoadResources i True \<in> set before) \<and>
    (\<forall>i. e = EvCalculateCosts i \<longrightarrow> EvPopulatePrices i None \<in> set before) \<and>
    (\<forall>i. e = EvCalculateDiff i \<longrightarrow> EvCalculateCosts i \<in> set before) \<and>
    (e = EvToOutputFormat \<longrightarrow>
      (\<forall>i < length (Terraform cfg).
         EvLoadFromFile i True \<in> set before \<and> EvLoadResources i True \<in> set before \<and>
         EvPopulatePrices i None \<in> set before \<and> EvCalculateCosts i \<in> set before \<and>
         EvCalculateDiff i \<in> set before)) \<and>
    (stage e \<longrightarrow> (\<forall>f \<in> set before. \<not> failed f))"
proof -
  obtain res s tr where run: "runMain X cfg = (res, s, tr)"
    by (cases "runMain X cfg")
  then have "events X cfg = tr"
    by (simp add: events_def)
  with runMain_ordered [OF run] assms
  have "pre (length (Terraform cfg)) ([] @ before) e"
    by (intro ordered_split [of _ _ tr _ _ after]) simp_all
  then show ?thesis
    by (cases e) (auto simp: nofail_def)
qed

theorem C6_runMain_stage_order_witness:
  "events (demo none_fails) two_projects =
    [EvDetect 0 True, EvStderr (''Detected terraform_dir at a'' @ newline),
     EvLoadFromFile 0 True, EvLoadResources 0 True,
     EvDetect 1 True, EvStderr (''Detected terraform_dir at b'' @ newline),
     EvLoadFromFile 1 True, EvLoadResources 1 True,
     EvNewSpinner,
     EvPopulatePrices 0 None, EvCalculateCosts 0, EvCalculateDiff 0,
     EvPopulatePrices 1 None, EvCalculateCosts 1, EvCalculateDiff 1,
     EvSpinnerSuccess] @ EvToOutputFormat # [EvRender 0 True, EvPrintf (''ab'' @ newline)] \<and>
   length (Terraform two_projects) = 2 \<and>
   stage (EvToOutputFormat :: nat event) \<and>
   EvCalculateDiff 1 \<in> set
    [EvDetect 0 True, EvStderr (''Detected terraform_dir at a'' @ newline),
     EvLoadFromFile 0 True, EvLoadResources 0 True,
     EvDetect 1 True, EvStderr (''Detected terraform_dir at b'' @ newline),
     EvLoadFromFile 1 True, EvLoadResources 1 True,
     EvNewSpinner,
     EvPopulatePrices 0 None, EvCalculateCosts 0, EvCalculateDiff 0,
     EvPopulatePrices 1 None, EvCalculateCosts 1, EvCalculateDiff 1 :: nat event,
     EvSpinnerSuccess]"
proof -
  have h: "events (demo none_fails) two_projects =
    [EvDetect 0 True, EvStderr (''Detected terraform_dir at a'' @ newline),
     EvLoadFromFile 0 True, EvLoadResources 0 True,
     EvDetect 1 True, EvStderr (''Detected terraform_dir at b'' @ newline),
     EvLoadFromFile 1 True, EvLoadResources 1 True,
     EvNewSpinner,
     EvPopulatePrices 0 None, EvCalculateCosts 0, EvCalculateDiff 0,
     EvPopulatePrices 1 None, EvCalculateCosts 1, EvCalculateDiff 1,
     EvSpinnerSuccess] @ EvToOutputFormat # [EvRender 0 True, EvPrintf (''ab'' @ newline)]"
    by (simp add: demo_ok_events)
  have n: "length (Terraform two_projects) = 2"
    by (simp add: two_projects_def)
  from C6_runMain_stage_order [OF h] n have
    "EvCalculateDiff 1 \<in> set
    [EvDetect 0 True, EvStderr (''Detected terraform_dir at a'' @ newline),
     EvLoadFromFile 0 True, EvLoadResources 0 True,
     EvDetect 1 True, EvStderr (''Detected terraform_dir at b'' @ newline),
     EvLoadFromFile 1 True, EvLoadResources 1 True,
     EvNewSpinner,
     EvPopulatePrices 0 None, EvCalculateCosts 0, EvCalculateDiff 0,
     EvPopulatePrices 1 None, EvCalculateCosts 1, EvCalculateDiff 1 :: nat event,
     EvSpinnerSuccess]"
    by (metis one_less_numeral_iff semiring_norm(76))
  with h n show ?thesis by simp
qed

section \<open>Properties of the cost calculator and the price resolver\<close>

lemma dec_value_Mul: "dec_value (Mul a b) = dec_value a * dec_value b"
  by (simp add: dec_value_def Mul_def power_int_add)

lemma dec_value_NewFromInt: "dec_value (NewFromInt n) = of_int n"
  by (simp add: dec_value_def NewFromInt_def)

text \<open>
  Claim C8. For a cost component with hourly quantity \<open>q\<close> (and, as the data model
  requires, no monthly quantity), resolved price \<open>p\<close> and unit multiplier \<open>m\<close>, the cost
  calculator produces \<open>HourlyCost = p * m * q\<close> and \<open>MonthlyCost = p * m * q * 730\<close>, and
  \<open>HourlyCost * 730\<close> is \<open>MonthlyCost\<close>: as decimals, coefficient and exponent, and as the
  numbers they stand for.
\<close>

theorem C8_hourly_cost_exact:
  assumes "cc_HourlyQuantity c = Some q" and "cc_MonthlyQuantity c = None"
    and "Price c = Resolved p" and "cc_UnitMultiplier c = m"
  shows "\<exists>c' hourly monthly. CalculateComponent Div c = Inr c' \<and>
    HourlyCost c' = Cost hourly \<and> MonthlyCost c' = Cost monthly \<and>
    hourly = Mul (Mul p m) q \<and>
    monthly = Mul (Mul (Mul p m) q) (NewFromInt 730) \<and>
    Mul hourly (NewFromInt 730) = monthly \<and>
    dec_value hourly = dec_value p * dec_value m * dec_value q \<and>
    dec_value monthly = dec_value p * dec_value m * dec_value q * 730 \<and>
    dec_value hourly * 730 = dec_value monthly"
  using assms
  by (simp add: CalculateComponent_def HOURS_PER_MONTH_def dec_value_Mul dec_value_NewFromInt Let_def)

theorem C8_hourly_cost_exact_witness:
  "cc_HourlyQuantity hourly_component = Some (Decimal 3 0) \<and>
   cc_MonthlyQuantity hourly_component = None \<and>
   Price hourly_component = Resolved (Decimal 5 (-2)) \<and>
   cc_UnitMultiplier hourly_component = Decimal 1 0 \<and>
   (\<exists>c'. CalculateComponent truncated_quotient hourly_component = Inr c' \<and>
     HourlyCost c' = Cost (Decimal 15 (-2)) \<and>
     MonthlyCost c' = Cost (Decimal 10950 (-2)))"
proof -
  have h: "cc_HourlyQuantity hourly_component = Some (Decimal 3 0)"
    "cc_MonthlyQuantity hourly_component = None"
    "Price hourly_component = Resolved (Decimal 5 (-2))"
    "cc_UnitMultiplier hourly_component = Decimal 1 0"
    by (simp_all add: hourly_component_def)
  from C8_hourly_cost_exact [OF h, of truncated_quotient] h show ?thesis
    by (auto simp: Mul_def NewFromInt_def)
qed





lemma retry_shape_snoc:
  "retry_shape es \<Longrightarrow> \<forall>e \<in> set es. snd e = Retryable \<Longrightarrow> retry_shape (es @ [e])"
  by (induction es rule: retry_shape.induct) auto


















end
